theory Spec2Isabelle
  imports Complex_Main "HOL-Library.AList"
begin

section \<open>GeoGrid: a sparse geographic grid (GDFB.py)\<close>

text \<open>
  The class \<open>GeoGrid\<close> of \<open>GDFB.py\<close> is a Python \<open>dict\<close> subclass with four attributes.
  Numbers are modelled in exact arithmetic, as rationals: this is what the code computes
  when it is handed \<open>fractions.Fraction\<close> values, and what it computes on floats as long as
  no rounding occurs. Rounding, overflow and NaN of floating-point numbers are not modelled.

  The \<open>dict\<close> part of an object is an association list in insertion order:
  \<open>AList.update\<close> overwrites the value of a key that is present, in place, and appends a
  new key at the end, as a Python \<open>dict\<close> does.
\<close>

subsection \<open>Scalars and errors\<close>

datatype error = ValueError string | ZeroDivisionError | InexactPower

type_synonym coord = "rat \<times> rat"
type_synonym rectangle = "coord \<times> coord"

text \<open>\<open>a / b\<close>: true division raises on a zero divisor.\<close>

definition py_truediv :: "rat \<Rightarrow> rat \<Rightarrow> error + rat" where
  "py_truediv a b = (if b = 0 then Inl ZeroDivisionError else Inr (a / b))"

text \<open>\<open>a % b\<close>: floored modulo (the result has the sign of the divisor), raising on zero.\<close>

definition floor_mod :: "rat \<Rightarrow> rat \<Rightarrow> rat" where
  "floor_mod a b = a - b * of_int \<lfloor>a / b\<rfloor>"

definition py_mod :: "rat \<Rightarrow> rat \<Rightarrow> error + rat" where
  "py_mod a b = (if b = 0 then Inl ZeroDivisionError else Inr (floor_mod a b))"

text \<open>\<open>int(x)\<close> truncates towards zero.\<close>

definition py_int :: "rat \<Rightarrow> int" where
  "py_int x = (if 0 \<le> x then \<lfloor>x\<rfloor> else \<lceil>x\<rceil>)"

text \<open>
  \<open>a ** b\<close> is exact for an integral exponent; a zero base with a negative exponent
  raises. For any other exponent Python leaves exact arithmetic (the result is a float or
  a complex number); the model marks that case with \<open>InexactPower\<close> instead of
  inventing a number.
\<close>

definition py_pow :: "rat \<Rightarrow> rat \<Rightarrow> error + rat" where
  "py_pow a b =
     (if b = of_int \<lfloor>b\<rfloor> then
        (if 0 \<le> \<lfloor>b\<rfloor> then Inr (a ^ nat \<lfloor>b\<rfloor>)
         else if a = 0 then Inl ZeroDivisionError
         else Inr ((1 / a) ^ nat (- \<lfloor>b\<rfloor>)))
      else Inl InexactPower)"

subsection \<open>The object\<close>

record geogrid =
  rect :: rectangle
  default_val :: rat
  gridsize :: "int \<times> int"
  tilesize :: "rat \<times> rat"
  storage :: "(coord \<times> rat) list"

text \<open>
  \<open>__init__\<close>. The rectangle is normalised; the tile size is computed from the corners as
  given, axis \<open>d\<close> with \<open>self.gridsize[d-1]\<close>: axis 0 divides by \<open>gridsize[-1]\<close>, axis 1 by
  \<open>gridsize[0]\<close>. The grid size is taken as a pair, so \<open>gridsize[0]\<close> is its first and
  \<open>gridsize[-1]\<close> its second component. Nothing is validated: the only failure is the
  division by a zero grid size component.
\<close>

definition init :: "rectangle \<Rightarrow> int \<times> int \<Rightarrow> rat \<Rightarrow> error + geogrid" where
  "init rct gsz dflt =
     (let bottomleft = (min (fst (fst rct)) (fst (snd rct)), min (snd (fst rct)) (snd (snd rct)));
          topright = (max (fst (fst rct)) (fst (snd rct)), max (snd (fst rct)) (snd (snd rct)));
          gs = (fst gsz, snd gsz)
      in case py_truediv \<bar>fst (fst rct) - fst (snd rct)\<bar> (of_int (snd gs)) of
           Inl e \<Rightarrow> Inl e
         | Inr t0 \<Rightarrow>
             (case py_truediv \<bar>snd (fst rct) - snd (snd rct)\<bar> (of_int (fst gs)) of
                Inl e \<Rightarrow> Inl e
              | Inr t1 \<Rightarrow>
                  Inr \<lparr>rect = (bottomleft, topright), default_val = dflt, gridsize = gs,
                       tilesize = (t0, t1), storage = []\<rparr>))"

text \<open>\<open>get_tile_of_coord\<close>, one axis: \<open>coord[d] - coord[d] % tilesize[d] + rect[0][d] % tilesize[d]\<close>.\<close>

definition tile_axis :: "rat \<Rightarrow> rat \<Rightarrow> rat \<Rightarrow> error + rat" where
  "tile_axis c ts r0 =
     (case py_mod c ts of
        Inl e \<Rightarrow> Inl e
      | Inr m \<Rightarrow> (case py_mod r0 ts of Inl e \<Rightarrow> Inl e | Inr p \<Rightarrow> Inr (c - m + p)))"

definition get_tile_of_coord :: "geogrid \<Rightarrow> coord \<Rightarrow> error + coord" where
  "get_tile_of_coord g c =
     (case tile_axis (fst c) (fst (tilesize g)) (fst (fst (rect g))) of
        Inl e \<Rightarrow> Inl e
      | Inr a \<Rightarrow>
          (case tile_axis (snd c) (snd (tilesize g)) (snd (fst (rect g))) of
             Inl e \<Rightarrow> Inl e
           | Inr b \<Rightarrow> Inr (a, b)))"

text \<open>\<open>__setitem__\<close>: a value equal to the default is not stored, and the tile is not even computed.\<close>

definition setitem :: "geogrid \<Rightarrow> coord \<Rightarrow> rat \<Rightarrow> error + geogrid" where
  "setitem g c v =
     (if v \<noteq> default_val g then
        (case get_tile_of_coord g c of
           Inl e \<Rightarrow> Inl e
         | Inr key \<Rightarrow> Inr (g\<lparr>storage := AList.update key v (storage g)\<rparr>))
      else Inr g)"

text \<open>\<open>__missing__\<close> and \<open>__getitem__\<close>: \<open>dict.__getitem__\<close> calls \<open>__missing__\<close> for an absent key.\<close>

definition missing :: "geogrid \<Rightarrow> coord \<Rightarrow> rat" where
  "missing g c = default_val g"

definition dict_getitem :: "geogrid \<Rightarrow> coord \<Rightarrow> rat" where
  "dict_getitem g key = (case map_of (storage g) key of Some v \<Rightarrow> v | None \<Rightarrow> missing g key)"

definition getitem :: "geogrid \<Rightarrow> coord \<Rightarrow> error + rat" where
  "getitem g c =
     (case get_tile_of_coord g c of
        Inl e \<Rightarrow> Inl e
      | Inr key \<Rightarrow> Inr (dict_getitem g key))"

text \<open>\<open>set_from_grid\<close>: the key is \<open>tile[d] * tilesize[d] + rect[0][d]\<close>, then \<open>self[key] = value\<close>.\<close>

definition set_from_grid :: "geogrid \<Rightarrow> int \<times> int \<Rightarrow> rat \<Rightarrow> error + geogrid" where
  "set_from_grid g tile v =
     (let key = (of_int (fst tile) * fst (tilesize g) + fst (fst (rect g)),
                 of_int (snd tile) * snd (tilesize g) + snd (fst (rect g)))
      in setitem g key v)"




subsection \<open>Objects in a store\<close>

text \<open>
  The binary operators work on a copy of their left operand, and whether the operands
  stay as they were depends on the copy being a different object. So objects live in a
  store, a list of objects addressed by position; a new object is appended. A statement
  returns the store and the exception raised, if any; an expression returns the store and
  its value or the exception.
\<close>

type_synonym heap = "geogrid list"

definition heap_init :: "heap \<Rightarrow> rectangle \<Rightarrow> int \<times> int \<Rightarrow> rat \<Rightarrow> heap \<times> (error + nat)" where
  "heap_init h rct gsz dflt =
     (case init rct gsz dflt of
        Inl e \<Rightarrow> (h, Inl e)
      | Inr g \<Rightarrow> (h @ [g], Inr (length h)))"

definition heap_setitem :: "heap \<Rightarrow> nat \<Rightarrow> coord \<Rightarrow> rat \<Rightarrow> heap \<times> error option" where
  "heap_setitem h a c v =
     (case setitem (h ! a) c v of
        Inl e \<Rightarrow> (h, Some e)
      | Inr g' \<Rightarrow> (h[a := g'], None))"

definition heap_getitem :: "heap \<Rightarrow> nat \<Rightarrow> coord \<Rightarrow> heap \<times> (error + rat)" where
  "heap_getitem h a c = (h, getitem (h ! a) c)"

definition heap_set_from_grid :: "heap \<Rightarrow> nat \<Rightarrow> int \<times> int \<Rightarrow> rat \<Rightarrow> heap \<times> error option" where
  "heap_set_from_grid h a tile v =
     (case set_from_grid (h ! a) tile v of
        Inl e \<Rightarrow> (h, Some e)
      | Inr g' \<Rightarrow> (h[a := g'], None))"

text \<open>
  \<open>copy(self)\<close> on a \<open>dict\<close> subclass without \<open>__copy__\<close>: the copy module builds an empty
  object of the class, gives it the attributes of the original, and then runs
  \<open>y[key] = value\<close> for every item of the original, in order; that assignment is
  \<open>GeoGrid.__setitem__\<close>.
\<close>

fun copy_items :: "heap \<Rightarrow> nat \<Rightarrow> (coord \<times> rat) list \<Rightarrow> heap \<times> error option" where
  "copy_items h y [] = (h, None)"
| "copy_items h y ((key, v) # items) =
     (case heap_setitem h y key v of
        (h', Some e) \<Rightarrow> (h', Some e)
      | (h', None) \<Rightarrow> copy_items h' y items)"

definition copy :: "heap \<Rightarrow> nat \<Rightarrow> heap \<times> (error + nat)" where
  "copy h x =
     (let y = length h;
          h1 = h @ [(h ! x)\<lparr>storage := []\<rparr>]
      in case copy_items h1 y (storage (h1 ! x)) of
           (h2, Some e) \<Rightarrow> (h2, Inl e)
         | (h2, None) \<Rightarrow> (h2, Inr y))"

text \<open>
  The body of a decorated method, \<open>geogrid[coord] op= other[coord]\<close>: read
  \<open>geogrid[coord]\<close>, read \<open>other[coord]\<close>, combine, and assign through \<open>__setitem__\<close>.
\<close>

definition operation ::
  "(rat \<Rightarrow> rat \<Rightarrow> error + rat) \<Rightarrow> heap \<Rightarrow> nat \<Rightarrow> coord \<Rightarrow> nat \<Rightarrow> heap \<times> error option" where
  "operation f h other c g =
     (case getitem (h ! g) c of
        Inl e \<Rightarrow> (h, Some e)
      | Inr x \<Rightarrow>
          (case getitem (h ! other) c of
             Inl e \<Rightarrow> (h, Some e)
           | Inr y \<Rightarrow>
               (case f x y of
                  Inl e \<Rightarrow> (h, Some e)
                | Inr r \<Rightarrow> heap_setitem h g c r)))"

text \<open>\<open>for coord in other: operation(self, other, coord, geogrid)\<close>, over the keys of \<open>other\<close>.\<close>

fun op_loop ::
  "(rat \<Rightarrow> rat \<Rightarrow> error + rat) \<Rightarrow> heap \<Rightarrow> nat \<Rightarrow> nat \<Rightarrow> coord list \<Rightarrow> heap \<times> error option" where
  "op_loop f h other g [] = (h, None)"
| "op_loop f h other g (c # cs) =
     (case operation f h other c g of
        (h', Some e) \<Rightarrow> (h', Some e)
      | (h', None) \<Rightarrow> op_loop f h' other g cs)"

text \<open>
  The decorator \<open>__grid_operation\<close>: the method it returns. The keys of \<open>other\<close> are read
  once, before the loop; the loop assigns to the copy only, which is a new object, so
  \<open>other\<close> has the same keys throughout.
\<close>

definition grid_operation ::
  "(rat \<Rightarrow> rat \<Rightarrow> error + rat) \<Rightarrow> heap \<Rightarrow> nat \<Rightarrow> nat \<Rightarrow> heap \<times> (error + nat)" where
  "grid_operation f h self other =
     (if rect (h ! self) \<noteq> rect (h ! other) then (h, Inl (ValueError ''incompatible rectangles''))
      else
        (case copy h self of
           (h1, Inl e) \<Rightarrow> (h1, Inl e)
         | (h1, Inr geogrid) \<Rightarrow>
             (case op_loop f h1 other geogrid (map fst (storage (h1 ! other))) of
                (h2, Some e) \<Rightarrow> (h2, Inl e)
              | (h2, None) \<Rightarrow> (h2, Inr geogrid))))"

text \<open>The five decorated methods.\<close>

datatype binop = Truediv | Add | Sub | Mul | Pow

fun scalar :: "binop \<Rightarrow> rat \<Rightarrow> rat \<Rightarrow> error + rat" where
  "scalar Truediv a b = py_truediv a b"
| "scalar Add a b = Inr (a + b)"
| "scalar Sub a b = Inr (a - b)"
| "scalar Mul a b = Inr (a * b)"
| "scalar Pow a b = py_pow a b"

definition binary_operator :: "binop \<Rightarrow> heap \<Rightarrow> nat \<Rightarrow> nat \<Rightarrow> heap \<times> (error + nat)" where
  "binary_operator bop = grid_operation (scalar bop)"

subsection \<open>Sequences of public operations\<close>

text \<open>
  A caller builds grids, assigns and reads by coordinate, assigns by grid index and
  combines grids. A command that raises leaves the store as it is at that point, and the
  caller goes on. A command naming an object that does not exist does nothing.
\<close>

datatype command =
    New rectangle "int \<times> int" rat
  | SetItem nat coord rat
  | GetItem nat coord
  | SetFromGrid nat "int \<times> int" rat
  | Operator binop nat nat

fun exec :: "heap \<Rightarrow> command \<Rightarrow> heap" where
  "exec h (New rct gsz dflt) = fst (heap_init h rct gsz dflt)"
| "exec h (SetItem a c v) = (if a < length h then fst (heap_setitem h a c v) else h)"
| "exec h (GetItem a c) = (if a < length h then fst (heap_getitem h a c) else h)"
| "exec h (SetFromGrid a t v) = (if a < length h then fst (heap_set_from_grid h a t v) else h)"
| "exec h (Operator bop a b) =
     (if a < length h \<and> b < length h then fst (binary_operator bop h a b) else h)"

definition run :: "command list \<Rightarrow> heap" where
  "run cmds = foldl exec [] cmds"

subsection \<open>Invariants of the storage\<close>

text \<open>Sparse: no stored value equals the default.\<close>

definition sparse :: "geogrid \<Rightarrow> bool" where
  "sparse g = list_all (\<lambda>(key, v). v \<noteq> default_val g) (storage g)"

text \<open>
  Well formed: the keys are distinct (it is a \<open>dict\<close>), no stored value equals the
  default, and every key is a tile, that is, \<open>get_tile_of_coord\<close> maps it to itself.
\<close>

definition well_formed :: "geogrid \<Rightarrow> bool" where
  "well_formed g =
     (distinct (map fst (storage g)) \<and>
      list_all (\<lambda>(key, v). v \<noteq> default_val g \<and> get_tile_of_coord g key = Inr key) (storage g))"

section \<open>Arithmetic of the tile mapping\<close>

lemma floor_mod_shift: "ts \<noteq> 0 \<Longrightarrow> floor_mod (ts * of_int k + x) ts = floor_mod x ts"
proof -
  assume nz: "ts \<noteq> 0"
  have "(ts * of_int k + x) / ts = x / ts + of_int k"
    using nz by (simp add: field_simps)
  then have "\<lfloor>(ts * of_int k + x) / ts\<rfloor> = \<lfloor>x / ts\<rfloor> + k"
    by simp
  then show ?thesis
    by (simp add: floor_mod_def algebra_simps)
qed

lemma snap_as_shift:
  "c - floor_mod c ts + floor_mod r ts = ts * of_int (\<lfloor>c / ts\<rfloor> - \<lfloor>r / ts\<rfloor>) + r"
  by (simp add: floor_mod_def algebra_simps)

lemma tile_axis_ok: "ts \<noteq> 0 \<Longrightarrow> tile_axis c ts r = Inr (c - floor_mod c ts + floor_mod r ts)"
  by (simp add: tile_axis_def py_mod_def)

lemma tile_axis_zero: "tile_axis c 0 r = Inl ZeroDivisionError"
  by (simp add: tile_axis_def py_mod_def)

lemma tile_axis_fixed:
  assumes "tile_axis c ts r = Inr t"
  shows "tile_axis t ts r = Inr t"
proof -
  have nz: "ts \<noteq> 0"
    using assms by (auto simp: tile_axis_zero)
  have t: "t = ts * of_int (\<lfloor>c / ts\<rfloor> - \<lfloor>r / ts\<rfloor>) + r"
    using assms nz by (simp add: tile_axis_ok snap_as_shift)
  have "floor_mod t ts = floor_mod r ts"
    unfolding t using nz by (rule floor_mod_shift)
  then show ?thesis
    using nz by (simp add: tile_axis_ok)
qed


lemma get_tile_of_coord_ok:
  "fst (tilesize g) \<noteq> 0 \<Longrightarrow> snd (tilesize g) \<noteq> 0 \<Longrightarrow>
   get_tile_of_coord g c =
     Inr (fst c - floor_mod (fst c) (fst (tilesize g)) + floor_mod (fst (fst (rect g))) (fst (tilesize g)),
          snd c - floor_mod (snd c) (snd (tilesize g)) + floor_mod (snd (fst (rect g))) (snd (tilesize g)))"
  by (simp add: get_tile_of_coord_def tile_axis_ok)

lemma get_tile_of_coord_nonzero:
  "get_tile_of_coord g c = Inr t \<Longrightarrow> fst (tilesize g) \<noteq> 0 \<and> snd (tilesize g) \<noteq> 0"
  by (auto simp: get_tile_of_coord_def tile_axis_zero split: sum.splits)

lemma get_tile_of_coord_error:
  "get_tile_of_coord g c = Inl e \<Longrightarrow> e = ZeroDivisionError"
  by (auto simp: get_tile_of_coord_def tile_axis_def py_mod_def split: sum.splits if_splits)

lemma get_tile_of_coord_fixed:
  "get_tile_of_coord g c = Inr t \<Longrightarrow> get_tile_of_coord g t = Inr t"
  by (auto simp: get_tile_of_coord_def tile_axis_fixed split: sum.splits)

lemma get_tile_of_coord_cong:
  "tilesize g' = tilesize g \<Longrightarrow> rect g' = rect g \<Longrightarrow> get_tile_of_coord g' c = get_tile_of_coord g c"
  by (simp add: get_tile_of_coord_def cong: sum.case_cong)

lemma floor_numeral_div:
  "\<lfloor>(numeral a :: rat) / numeral b\<rfloor> = numeral a div numeral b"
  using floor_divide_of_int_eq [of "numeral a" "numeral b", where ?'a = rat] by simp

lemma floor_neg_numeral_div:
  "\<lfloor>- ((numeral a :: rat) / numeral b)\<rfloor> = - numeral a div numeral b"
  using floor_divide_of_int_eq [of "- numeral a" "numeral b", where ?'a = rat] by simp

text \<open>The definitions unfolded to evaluate the model on concrete grids.\<close>

lemma floor_one_div: "\<lfloor>(1 :: rat) / numeral b\<rfloor> = 1 div numeral b"
  using floor_divide_of_int_eq [of 1 "numeral b", where ?'a = rat] by simp

lemmas eval_defs =
  run_def heap_init_def init_def binary_operator_def grid_operation_def copy_def operation_def
  heap_setitem_def setitem_def getitem_def dict_getitem_def missing_def get_tile_of_coord_def
  tile_axis_def py_mod_def floor_mod_def py_truediv_def floor_numeral_div floor_neg_numeral_div floor_one_div

text \<open>
  C1. For a grid built by \<open>__init__\<close> from a rectangle with distinct corners on each
  axis, the tile size of axis \<open>d\<close> is \<open>|rect[0][d] - rect[1][d]| / gridsize[d-1]\<close> (axis 0 uses
  the last grid size component, axis 1 the first), and \<open>get_tile_of_coord\<close> returns
  \<open>coord[d] - coord[d] % tilesize[d] + rect[0][d] % tilesize[d]\<close> on each axis, with the
  normalised rectangle. For the rectangle \<open>((0,0),(10,10))\<close> and grid size \<open>(2,2)\<close> the
  tile size is \<open>(5,5)\<close>: see the witness.
\<close>

theorem get_tile_of_coord_formula:
  assumes "init rct gsz dflt = Inr g"
    and "fst (fst rct) \<noteq> fst (snd rct)" and "snd (fst rct) \<noteq> snd (snd rct)"
  shows "tilesize g = (\<bar>fst (fst rct) - fst (snd rct)\<bar> / of_int (snd gsz),
                       \<bar>snd (fst rct) - snd (snd rct)\<bar> / of_int (fst gsz))
       \<and> rect g = ((min (fst (fst rct)) (fst (snd rct)), min (snd (fst rct)) (snd (snd rct))),
                   (max (fst (fst rct)) (fst (snd rct)), max (snd (fst rct)) (snd (snd rct))))
       \<and> get_tile_of_coord g c =
           Inr (fst c - floor_mod (fst c) (fst (tilesize g))
                  + floor_mod (fst (fst (rect g))) (fst (tilesize g)),
                snd c - floor_mod (snd c) (snd (tilesize g))
                  + floor_mod (snd (fst (rect g))) (snd (tilesize g)))"
proof -
  have gs: "snd gsz \<noteq> 0" "fst gsz \<noteq> 0"
    using assms(1) by (auto simp: init_def py_truediv_def Let_def split: if_splits)
  have g: "g = \<lparr>rect = ((min (fst (fst rct)) (fst (snd rct)), min (snd (fst rct)) (snd (snd rct))),
                   (max (fst (fst rct)) (fst (snd rct)), max (snd (fst rct)) (snd (snd rct)))),
                 default_val = dflt, gridsize = (fst gsz, snd gsz),
                 tilesize = (\<bar>fst (fst rct) - fst (snd rct)\<bar> / of_int (snd gsz),
                             \<bar>snd (fst rct) - snd (snd rct)\<bar> / of_int (fst gsz)),
                 storage = []\<rparr>"
    using assms(1) gs by (simp add: init_def py_truediv_def Let_def)
  have nz: "fst (tilesize g) \<noteq> 0" "snd (tilesize g) \<noteq> 0"
    using assms(2,3) gs by (simp_all add: g)
  show ?thesis
    using get_tile_of_coord_ok [OF nz, of c] by (simp add: g)
qed

theorem get_tile_of_coord_formula_witness:
  "init ((0, 0), (10, 10)) (2, 2) 0 =
     Inr \<lparr>rect = ((0, 0), (10, 10)), default_val = 0, gridsize = (2, 2),
          tilesize = (5, 5), storage = []\<rparr>
   \<and> get_tile_of_coord \<lparr>rect = ((0, 0), (10, 10)), default_val = 0, gridsize = (2, 2),
          tilesize = (5, 5), storage = []\<rparr> (3, 3) = Inr (0, 0)"
proof -
  have i: "init ((0, 0), (10, 10)) (2, 2) 0 =
     Inr \<lparr>rect = ((0, 0), (10, 10)), default_val = 0, gridsize = (2, 2),
          tilesize = (5, 5), storage = []\<rparr>"
    by (simp add: init_def py_truediv_def)
  show ?thesis
    using get_tile_of_coord_formula [OF i, of "(3, 3)"] i
    by (simp add: floor_mod_def floor_numeral_div)
qed

section \<open>Construction\<close>

lemma init_ok:
  "fst gsz \<noteq> 0 \<Longrightarrow> snd gsz \<noteq> 0 \<Longrightarrow>
   init rct gsz dflt =
     Inr \<lparr>rect = ((min (fst (fst rct)) (fst (snd rct)), min (snd (fst rct)) (snd (snd rct))),
                  (max (fst (fst rct)) (fst (snd rct)), max (snd (fst rct)) (snd (snd rct)))),
          default_val = dflt, gridsize = (fst gsz, snd gsz),
          tilesize = (\<bar>fst (fst rct) - fst (snd rct)\<bar> / of_int (snd gsz),
                      \<bar>snd (fst rct) - snd (snd rct)\<bar> / of_int (fst gsz)),
          storage = []\<rparr>"
  by (simp add: init_def py_truediv_def)

lemma init_zero: "fst gsz = 0 \<or> snd gsz = 0 \<Longrightarrow> init rct gsz dflt = Inl ZeroDivisionError"
  by (auto simp: init_def py_truediv_def)

text \<open>
  C4, as the code has it. \<open>__init__\<close> validates nothing and never raises a
  configuration error: it fails exactly when a grid size component is zero, with the
  \<open>ZeroDivisionError\<close> of the tile size division. A negative grid size component and a
  rectangle with no extent on an axis are accepted.
\<close>

theorem init_fails_iff:
  "(init rct gsz dflt = Inl e) = (e = ZeroDivisionError \<and> (fst gsz = 0 \<or> snd gsz = 0))"
proof (cases "fst gsz = 0 \<or> snd gsz = 0")
  case True
  then show ?thesis
    using init_zero [OF True, of rct dflt] by auto
next
  case False
  then show ?thesis
    by (simp add: init_ok)
qed

theorem init_fails_iff_witness:
  "init ((0, 0), (10, 10)) (0, 2) 0 = Inl ZeroDivisionError"
  using init_fails_iff [of "((0, 0), (10, 10))" "(0, 2)" 0 ZeroDivisionError] by simp

text \<open>
  C4 as stated fails: a rectangle with zero extent on the first axis, and a negative
  grid size component, both give a grid.
\<close>

theorem init_unvalidated_counterexample:
  "init ((0, 0), (0, 10)) (2, 2) 0 =
     Inr \<lparr>rect = ((0, 0), (0, 10)), default_val = 0, gridsize = (2, 2),
          tilesize = (0, 5), storage = []\<rparr>
   \<and> init ((0, 0), (10, 10)) (- 2, 2) 0 =
     Inr \<lparr>rect = ((0, 0), (10, 10)), default_val = 0, gridsize = (- 2, 2),
          tilesize = (5, - 5), storage = []\<rparr>"
  by (simp add: init_def py_truediv_def)

section \<open>Reading and writing by coordinate\<close>

lemma getitem_ok:
  "get_tile_of_coord g c = Inr key \<Longrightarrow> getitem g c = Inr (dict_getitem g key)"
  by (simp add: getitem_def)

lemma setitem_default: "setitem g c (default_val g) = Inr g"
  by (simp add: setitem_def)

lemma setitem_ok:
  "v \<noteq> default_val g \<Longrightarrow> get_tile_of_coord g c = Inr key \<Longrightarrow>
   setitem g c v = Inr (g\<lparr>storage := AList.update key v (storage g)\<rparr>)"
  by (simp add: setitem_def)

lemma setitem_attrs:
  "setitem g c v = Inr g' \<Longrightarrow> \<exists>al. g' = g\<lparr>storage := al\<rparr>"
  by (auto simp: setitem_def split: if_splits sum.splits intro: exI [of _ "storage g"])

lemma get_tile_of_coord_storage [simp]:
  "get_tile_of_coord (g\<lparr>storage := al\<rparr>) c = get_tile_of_coord g c"
  by (rule get_tile_of_coord_cong) simp_all

lemma dict_getitem_update:
  "dict_getitem (g\<lparr>storage := AList.update key v (storage g)\<rparr>) k =
     (if k = key then v else dict_getitem g k)"
  by (simp add: dict_getitem_def missing_def update_conv' split: option.splits)

text \<open>
  C7. Reading a coordinate whose tile has no entry is not an error: the read returns
  the default, and the store, so the grid and its storage, is as before.
\<close>

theorem missing_key_read:
  assumes "get_tile_of_coord (h ! a) c = Inr key"
    and "map_of (storage (h ! a)) key = None"
  shows "heap_getitem h a c = (h, Inr (default_val (h ! a)))"
  using assms by (simp add: heap_getitem_def getitem_def dict_getitem_def missing_def)

theorem missing_key_read_witness:
  "heap_getitem
     [\<lparr>rect = ((0, 0), (10, 10)), default_val = 0, gridsize = (2, 2), tilesize = (5, 5),
       storage = [((0, 0), 7)]\<rparr>] 0 (6, 6) =
   ([\<lparr>rect = ((0, 0), (10, 10)), default_val = 0, gridsize = (2, 2), tilesize = (5, 5),
       storage = [((0, 0), 7)]\<rparr>], Inr 0)"
proof -
  let ?g = "\<lparr>rect = ((0, 0), (10, 10)), default_val = 0, gridsize = (2, 2),
              tilesize = (5, 5), storage = [((0, 0), 7)]\<rparr>"
  have t: "get_tile_of_coord ([?g] ! 0) (6, 6) = Inr (5, 5)"
    by (simp add: get_tile_of_coord_ok floor_mod_def floor_numeral_div)
  have m: "map_of (storage ([?g] ! 0)) (5, 5) = None"
    by simp
  show ?thesis
    using missing_key_read [OF t m] by simp
qed

text \<open>
  C8. If two coordinates have the same tile, then after one assignment to either of
  them both read the same value, and that value is the one assigned unless it is the
  default. In the grid of rectangle \<open>((0,0),(10,10))\<close> and grid size \<open>(2,2)\<close>, after
  \<open>set((3,3), 7)\<close> the reads at \<open>(3,3)\<close> and \<open>(4,4)\<close> give 7 and the read at \<open>(6,6)\<close>
  gives the default 0.
\<close>

theorem same_tile_same_value:
  assumes "get_tile_of_coord g c1 = Inr t" and "get_tile_of_coord g c2 = Inr t"
    and "c = c1 \<or> c = c2" and "setitem g c v = Inr g'"
  shows "getitem g' c1 = getitem g' c2
       \<and> (v \<noteq> default_val g \<longrightarrow> getitem g' c1 = Inr v \<and> getitem g' c2 = Inr v)
       \<and> (\<exists>g0 g1. init ((0, 0), (10, 10)) (2, 2) 0 = Inr g0 \<and> setitem g0 (3, 3) 7 = Inr g1
             \<and> getitem g1 (3, 3) = Inr 7 \<and> getitem g1 (4, 4) = Inr 7
             \<and> getitem g1 (6, 6) = Inr 0)"
proof -
  obtain al where g': "g' = g\<lparr>storage := al\<rparr>"
    using setitem_attrs [OF assms(4)] by blast
  have same: "getitem g' c1 = getitem g' c2"
    using assms(1,2) by (simp add: g' getitem_def)
  have written: "getitem g' c1 = Inr v \<and> getitem g' c2 = Inr v" if "v \<noteq> default_val g"
  proof -
    have "get_tile_of_coord g c = Inr t"
      using assms(1,2,3) by auto
    then have "g' = g\<lparr>storage := AList.update t v (storage g)\<rparr>"
      using assms(4) that by (simp add: setitem_ok)
    then show ?thesis
      using assms(1,2) by (simp add: getitem_def dict_getitem_update)
  qed
  let ?g0 = "\<lparr>rect = ((0, 0), (10, 10)), default_val = 0, gridsize = (2, 2),
               tilesize = (5, 5), storage = []\<rparr>"
  have "init ((0, 0), (10, 10)) (2, 2) 0 = Inr ?g0"
    by (simp add: init_def py_truediv_def)
  moreover have "setitem ?g0 (3, 3) 7 = Inr (?g0\<lparr>storage := [((0, 0), 7)]\<rparr>)"
    by (simp add: setitem_def get_tile_of_coord_ok floor_mod_def floor_numeral_div)
  moreover have "getitem (?g0\<lparr>storage := [((0, 0), 7)]\<rparr>) (3, 3) = Inr 7"
    "getitem (?g0\<lparr>storage := [((0, 0), 7)]\<rparr>) (4, 4) = Inr 7"
    "getitem (?g0\<lparr>storage := [((0, 0), 7)]\<rparr>) (6, 6) = Inr 0"
    by (simp_all add: getitem_def get_tile_of_coord_ok floor_mod_def floor_numeral_div
        dict_getitem_def missing_def)
  ultimately show ?thesis
    using same written by blast
qed

theorem same_tile_same_value_witness:
  "getitem \<lparr>rect = ((0, 0), (10, 10)), default_val = 0, gridsize = (2, 2), tilesize = (5, 5),
            storage = [((0, 0), 7)]\<rparr> (3, 3) = Inr 7
   \<and> getitem \<lparr>rect = ((0, 0), (10, 10)), default_val = 0, gridsize = (2, 2), tilesize = (5, 5),
            storage = [((0, 0), 7)]\<rparr> (4, 4) = Inr 7"
proof -
  let ?g0 = "\<lparr>rect = ((0, 0), (10, 10)), default_val = 0, gridsize = (2, 2),
               tilesize = (5, 5), storage = []\<rparr>"
  have t1: "get_tile_of_coord ?g0 (3, 3) = Inr (0, 0)"
    and t2: "get_tile_of_coord ?g0 (4, 4) = Inr (0, 0)"
    by (simp_all add: get_tile_of_coord_ok floor_mod_def floor_numeral_div)
  have c: "(3, 3) = (3 :: rat, 3 :: rat) \<or> (3, 3) = (4 :: rat, 4 :: rat)"
    by simp
  have s: "setitem ?g0 (3, 3) 7 = Inr (?g0\<lparr>storage := [((0, 0), 7)]\<rparr>)"
    by (simp add: setitem_def t1)
  show ?thesis
    using same_tile_same_value [OF t1 t2 c s] by simp
qed

section \<open>Assignment by grid index and export\<close>


lemma py_int_of_int [simp]: "py_int (of_int i) = i"
  by (simp add: py_int_def)





section \<open>What an operation leaves alone\<close>

lemma heap_setitem_frame:
  assumes "heap_setitem h a c v = (h', r)"
  shows "length h' = length h \<and> (\<forall>b. b \<noteq> a \<longrightarrow> h' ! b = h ! b)"
  using assms by (auto simp: heap_setitem_def split: sum.splits)

lemma copy_items_frame:
  "copy_items h y items = (h', r) \<Longrightarrow>
   length h' = length h \<and> (\<forall>b. b \<noteq> y \<longrightarrow> h' ! b = h ! b)"
proof (induction items arbitrary: h)
  case Nil
  then show ?case by simp
next
  case (Cons kv items)
  obtain key v where kv: "kv = (key, v)"
    by (cases kv)
  obtain h1 r1 where s: "heap_setitem h y key v = (h1, r1)"
    by (cases "heap_setitem h y key v")
  note f1 = heap_setitem_frame [OF s]
  show ?case
  proof (cases r1)
    case None
    then have "copy_items h1 y items = (h', r)"
      using Cons.prems kv s by simp
    then show ?thesis
      using Cons.IH f1 by simp
  next
    case (Some e)
    then have "h' = h1"
      using Cons.prems kv s by simp
    then show ?thesis
      using f1 by simp
  qed
qed

lemma copy_frame:
  assumes "copy h x = (h', r)"
  shows "length h' = Suc (length h) \<and> (\<forall>b<length h. h' ! b = h ! b)
       \<and> (\<forall>y. r = Inr y \<longrightarrow> y = length h)"
proof -
  let ?h1 = "h @ [(h ! x)\<lparr>storage := []\<rparr>]"
  obtain h2 r2 where c: "copy_items ?h1 (length h) (storage (?h1 ! x)) = (h2, r2)"
    by (cases "copy_items ?h1 (length h) (storage (?h1 ! x))")
  have h': "h' = h2" and r: "r = (case r2 of Some e \<Rightarrow> Inl e | None \<Rightarrow> Inr (length h))"
    using assms c by (auto simp: copy_def Let_def split: option.splits)
  have "length h2 = Suc (length h) \<and> (\<forall>b. b \<noteq> length h \<longrightarrow> h2 ! b = ?h1 ! b)"
    using copy_items_frame [OF c] by simp
  then show ?thesis
    using h' r by (auto simp: nth_append split: option.splits)
qed

lemma operation_frame:
  assumes "operation f h other c g = (h', r)"
  shows "length h' = length h \<and> (\<forall>b. b \<noteq> g \<longrightarrow> h' ! b = h ! b)"
  using assms heap_setitem_frame
  by (auto simp: operation_def split: sum.splits)

lemma op_loop_frame:
  "op_loop f h other g cs = (h', r) \<Longrightarrow>
   length h' = length h \<and> (\<forall>b. b \<noteq> g \<longrightarrow> h' ! b = h ! b)"
proof (induction cs arbitrary: h)
  case Nil
  then show ?case by simp
next
  case (Cons c cs)
  obtain h1 r1 where s: "operation f h other c g = (h1, r1)"
    by (cases "operation f h other c g")
  note f1 = operation_frame [OF s]
  show ?case
  proof (cases r1)
    case None
    then have "op_loop f h1 other g cs = (h', r)"
      using Cons.prems s by simp
    then show ?thesis
      using Cons.IH f1 by simp
  next
    case (Some e)
    then have "h' = h1"
      using Cons.prems s by simp
    then show ?thesis
      using f1 by simp
  qed
qed

lemma grid_operation_frame:
  assumes "grid_operation f h self other = (h', r)"
  shows "length h \<le> length h' \<and> (\<forall>b<length h. h' ! b = h ! b)
       \<and> (\<forall>y. r = Inr y \<longrightarrow> y = length h \<and> length h' = Suc (length h))"
proof (cases "rect (h ! self) \<noteq> rect (h ! other)")
  case True
  then show ?thesis
    using assms by (auto simp: grid_operation_def)
next
  case False
  obtain h1 r1 where c: "copy h self = (h1, r1)"
    by (cases "copy h self")
  note f1 = copy_frame [OF c]
  show ?thesis
  proof (cases r1)
    case (Inl e)
    then have "h' = h1" "r = Inl e"
      using assms False c by (auto simp: grid_operation_def)
    then show ?thesis
      using f1 by simp
  next
    case (Inr g)
    then have g: "g = length h"
      using f1 by simp
    obtain h2 r2 where l: "op_loop f h1 other g (map fst (storage (h1 ! other))) = (h2, r2)"
      by (cases "op_loop f h1 other g (map fst (storage (h1 ! other)))")
    have h': "h' = h2" and r: "r = (case r2 of Some e \<Rightarrow> Inl e | None \<Rightarrow> Inr g)"
      using assms False c Inr l by (auto simp: grid_operation_def split: option.splits)
    have "length h2 = length h1 \<and> (\<forall>b. b \<noteq> g \<longrightarrow> h2 ! b = h1 ! b)"
      using op_loop_frame [OF l] .
    then show ?thesis
      using f1 g h' r by (auto split: option.splits)
  qed
qed

text \<open>
  C10. A binary operator leaves every object that existed before it as it was, the two
  operands among them, with storage, rectangle, grid size, tile size and default; this
  holds whether it returns or raises. When it returns, the result is a new object.
\<close>

theorem binary_operator_pure:
  assumes "self < length h" and "other < length h"
    and "binary_operator bop h self other = (h', r)"
  shows "h' ! self = h ! self \<and> h' ! other = h ! other \<and> take (length h) h' = h
       \<and> (\<forall>y. r = Inr y \<longrightarrow> y = length h \<and> length h' = Suc (length h))"
proof -
  have f: "length h \<le> length h' \<and> (\<forall>b<length h. h' ! b = h ! b)
       \<and> (\<forall>y. r = Inr y \<longrightarrow> y = length h \<and> length h' = Suc (length h))"
    using assms(3) unfolding binary_operator_def by (rule grid_operation_frame)
  then have "take (length h) h' = h"
    by (simp add: list_eq_iff_nth_eq)
  then show ?thesis
    using f assms(1,2) by simp
qed

theorem binary_operator_pure_witness:
  "binary_operator Truediv
     [\<lparr>rect = ((0, 0), (10, 10)), default_val = 0, gridsize = (2, 2), tilesize = (5, 5),
       storage = [((0, 0), 4)]\<rparr>,
      \<lparr>rect = ((0, 0), (10, 10)), default_val = 0, gridsize = (2, 2), tilesize = (5, 5),
       storage = [((0, 0), 2)]\<rparr>] 0 1 =
   ([\<lparr>rect = ((0, 0), (10, 10)), default_val = 0, gridsize = (2, 2), tilesize = (5, 5),
       storage = [((0, 0), 4)]\<rparr>,
     \<lparr>rect = ((0, 0), (10, 10)), default_val = 0, gridsize = (2, 2), tilesize = (5, 5),
       storage = [((0, 0), 2)]\<rparr>,
     \<lparr>rect = ((0, 0), (10, 10)), default_val = 0, gridsize = (2, 2), tilesize = (5, 5),
       storage = [((0, 0), 2)]\<rparr>], Inr 2)
   \<and> take 2
       [\<lparr>rect = ((0, 0), (10, 10)), default_val = 0, gridsize = (2, 2), tilesize = (5, 5),
         storage = [((0, 0), 4)]\<rparr>,
        \<lparr>rect = ((0, 0), (10, 10)), default_val = 0, gridsize = (2, 2), tilesize = (5, 5),
         storage = [((0, 0), 2)]\<rparr>,
        \<lparr>rect = ((0, 0), (10, 10)), default_val = 0, gridsize = (2, 2), tilesize = (5, 5),
         storage = [((0, 0), 2 :: rat)]\<rparr>] =
       [\<lparr>rect = ((0, 0), (10, 10)), default_val = 0, gridsize = (2, 2), tilesize = (5, 5),
         storage = [((0, 0), 4)]\<rparr>,
        \<lparr>rect = ((0, 0), (10, 10)), default_val = 0, gridsize = (2, 2), tilesize = (5, 5),
         storage = [((0, 0), 2)]\<rparr>]"
proof -
  let ?A = "\<lparr>rect = ((0, 0), (10, 10)), default_val = 0, gridsize = (2, 2),
              tilesize = (5, 5), storage = [((0 :: rat, 0 :: rat), 4 :: rat)]\<rparr>"
  let ?B = "\<lparr>rect = ((0, 0), (10, 10)), default_val = 0, gridsize = (2, 2),
              tilesize = (5, 5), storage = [((0 :: rat, 0 :: rat), 2 :: rat)]\<rparr>"
  have len: "0 < length [?A, ?B]" "1 < length [?A, ?B]"
    by simp_all
  have ev: "binary_operator Truediv [?A, ?B] 0 1 = ([?A, ?B, ?B], Inr 2)"
    by (simp add: eval_defs)
  show ?thesis
    using binary_operator_pure [OF len ev] ev by simp
qed

section \<open>Which errors an operation raises\<close>

lemma setitem_error: "setitem g c v = Inl e \<Longrightarrow> e = ZeroDivisionError"
  by (auto simp: setitem_def split: if_splits sum.splits dest: get_tile_of_coord_error)

lemma getitem_error: "getitem g c = Inl e \<Longrightarrow> e = ZeroDivisionError"
  by (auto simp: getitem_def split: sum.splits dest: get_tile_of_coord_error)

lemma scalar_error: "scalar bop a b \<noteq> Inl (ValueError s)"
  by (cases bop) (simp_all add: py_truediv_def py_pow_def)

lemma heap_setitem_error: "heap_setitem h a c v = (h', Some e) \<Longrightarrow> e = ZeroDivisionError"
  by (auto simp: heap_setitem_def split: sum.splits dest: setitem_error)

lemma copy_items_error: "copy_items h y items = (h', Some e) \<Longrightarrow> e = ZeroDivisionError"
proof (induction items arbitrary: h)
  case Nil
  then show ?case by simp
next
  case (Cons kv items)
  obtain key v where kv: "kv = (key, v)"
    by (cases kv)
  obtain h1 r1 where s: "heap_setitem h y key v = (h1, r1)"
    by (cases "heap_setitem h y key v")
  show ?case
  proof (cases r1)
    case None
    then show ?thesis
      using Cons kv s by simp
  next
    case (Some e1)
    then have "e = e1"
      using Cons.prems kv s by simp
    then show ?thesis
      using heap_setitem_error s Some by blast
  qed
qed

lemma copy_error: "copy h x = (h', Inl e) \<Longrightarrow> e = ZeroDivisionError"
  by (auto simp: copy_def Let_def split: prod.splits option.splits dest: copy_items_error)

lemma operation_error:
  assumes "operation (scalar bop) h other c g = (h', Some e)"
  shows "e \<noteq> ValueError s"
  using assms scalar_error [of bop _ _ s]
  by (auto simp: operation_def split: sum.splits
      dest: getitem_error heap_setitem_error)

lemma op_loop_error:
  "op_loop (scalar bop) h other g cs = (h', Some e) \<Longrightarrow> e \<noteq> ValueError s"
proof (induction cs arbitrary: h)
  case Nil
  then show ?case by simp
next
  case (Cons c cs)
  obtain h1 r1 where o: "operation (scalar bop) h other c g = (h1, r1)"
    by (cases "operation (scalar bop) h other c g")
  show ?case
  proof (cases r1)
    case None
    then show ?thesis
      using Cons o by simp
  next
    case (Some e1)
    then have "e = e1"
      using Cons.prems o by simp
    then show ?thesis
      using operation_error o Some by blast
  qed
qed

text \<open>
  C5. A binary operator raises \<open>ValueError("incompatible rectangles")\<close>, the error the
  specification calls IncompatibleGridError, exactly when the normalised rectangles of
  its operands differ, whatever the grid sizes; it then raises before anything is
  copied or assigned, so the store, and with it the storage of both operands, is
  unchanged.
\<close>

theorem incompatible_rectangles:
  "(snd (binary_operator bop h self other) = Inl (ValueError ''incompatible rectangles'')
      \<longleftrightarrow> rect (h ! self) \<noteq> rect (h ! other))
   \<and> (rect (h ! self) \<noteq> rect (h ! other) \<longrightarrow> fst (binary_operator bop h self other) = h)"
proof (cases "rect (h ! self) \<noteq> rect (h ! other)")
  case True
  then show ?thesis
    by (simp add: binary_operator_def grid_operation_def)
next
  case False
  have "snd (binary_operator bop h self other) \<noteq> Inl (ValueError ''incompatible rectangles'')"
  proof (cases "copy h self")
    case (Pair h1 r1)
    show ?thesis
    proof (cases r1)
      case (Inl e)
      then have "e = ZeroDivisionError"
        using Pair copy_error by blast
      then show ?thesis
        using False Pair Inl by (simp add: binary_operator_def grid_operation_def)
    next
      case (Inr g)
      obtain h2 r2 where l: "op_loop (scalar bop) h1 other g (map fst (storage (h1 ! other))) = (h2, r2)"
        by (cases "op_loop (scalar bop) h1 other g (map fst (storage (h1 ! other)))")
      show ?thesis
      proof (cases r2)
        case None
        then show ?thesis
          using False Pair Inr l by (simp add: binary_operator_def grid_operation_def)
      next
        case (Some e)
        then have "e \<noteq> ValueError ''incompatible rectangles''"
          using l op_loop_error by blast
        then show ?thesis
          using False Pair Inr l Some by (simp add: binary_operator_def grid_operation_def)
      qed
    qed
  qed
  then show ?thesis
    using False by simp
qed

theorem incompatible_rectangles_witness:
  "binary_operator Add
     [\<lparr>rect = ((0, 0), (10, 10)), default_val = 0, gridsize = (2, 2), tilesize = (5, 5),
       storage = [((0, 0), 4)]\<rparr>,
      \<lparr>rect = ((0, 0), (20, 20)), default_val = 0, gridsize = (2, 2), tilesize = (10, 10),
       storage = [((0, 0), 2)]\<rparr>] 0 1 =
   ([\<lparr>rect = ((0, 0), (10, 10)), default_val = 0, gridsize = (2, 2), tilesize = (5, 5),
       storage = [((0, 0), 4)]\<rparr>,
     \<lparr>rect = ((0, 0), (20, 20)), default_val = 0, gridsize = (2, 2), tilesize = (10, 10),
       storage = [((0, 0), 2)]\<rparr>], Inl (ValueError ''incompatible rectangles''))"
proof -
  let ?A = "\<lparr>rect = ((0, 0), (10, 10)), default_val = 0, gridsize = (2, 2),
              tilesize = (5, 5), storage = [((0 :: rat, 0 :: rat), 4 :: rat)]\<rparr>"
  let ?B = "\<lparr>rect = ((0, 0), (20, 20)), default_val = 0, gridsize = (2, 2),
              tilesize = (10, 10), storage = [((0 :: rat, 0 :: rat), 2 :: rat)]\<rparr>"
  have differ: "rect ([?A, ?B] ! 0) \<noteq> rect ([?A, ?B] ! 1)"
    by simp
  show ?thesis
    using incompatible_rectangles [of Add "[?A, ?B]" 0 1] differ
    by (simp add: prod_eq_iff)
qed

section \<open>The storage invariants\<close>

lemma list_all_update:
  "list_all P al \<Longrightarrow> P (k, v) \<Longrightarrow> list_all P (AList.update k v al)"
  by (induction al) auto

lemma well_formed_empty [simp]: "well_formed (g\<lparr>storage := []\<rparr>)"
  by (simp add: well_formed_def)

lemma init_well_formed: "init rct gsz dflt = Inr g \<Longrightarrow> well_formed g"
  by (auto simp: init_def Let_def well_formed_def split: sum.splits)

lemma setitem_well_formed:
  assumes "well_formed g" and "setitem g c v = Inr g'"
  shows "well_formed g'"
proof (cases "v = default_val g")
  case True
  then show ?thesis
    using assms by (simp add: setitem_def)
next
  case False
  then obtain key where key: "get_tile_of_coord g c = Inr key"
    and g': "g' = g\<lparr>storage := AList.update key v (storage g)\<rparr>"
    using assms(2) by (auto simp: setitem_def split: sum.splits)
  have "get_tile_of_coord g key = Inr key"
    using key by (rule get_tile_of_coord_fixed)
  then have "list_all (\<lambda>(key, v). v \<noteq> default_val g \<and> get_tile_of_coord g key = Inr key)
               (AList.update key v (storage g))"
    using assms(1) False by (intro list_all_update) (simp_all add: well_formed_def)
  moreover have "distinct (map fst (AList.update key v (storage g)))"
    using assms(1) by (simp add: well_formed_def distinct_update)
  ultimately show ?thesis
    by (simp add: g' well_formed_def)
qed

lemma set_from_grid_well_formed:
  "well_formed g \<Longrightarrow> set_from_grid g tile v = Inr g' \<Longrightarrow> well_formed g'"
  unfolding set_from_grid_def Let_def by (rule setitem_well_formed)

lemma well_formed_sparse: "well_formed g \<Longrightarrow> sparse g"
  by (auto simp: well_formed_def sparse_def list_all_iff)

lemma list_all_list_update:
  "list_all P xs \<Longrightarrow> P x \<Longrightarrow> list_all P (xs[i := x])"
  using set_update_subset_insert [of xs i x] by (auto simp: list_all_iff)

lemma heap_setitem_well_formed:
  assumes "list_all well_formed h" and "heap_setitem h a c v = (h', r)"
  shows "list_all well_formed h'"
proof (cases "setitem (h ! a) c v")
  case (Inl e)
  then show ?thesis
    using assms by (simp add: heap_setitem_def)
next
  case (Inr g')
  then have h': "h' = h[a := g']"
    using assms(2) by (simp add: heap_setitem_def)
  show ?thesis
  proof (cases "a < length h")
    case True
    then have "well_formed (h ! a)"
      using assms(1) by (simp add: list_all_length)
    then have "well_formed g'"
      using Inr by (rule setitem_well_formed)
    then show ?thesis
      using assms(1) h' by (simp add: list_all_list_update)
  next
    case False
    then have "h[a := g'] = h"
      by (simp add: list_update_beyond)
    then show ?thesis
      using assms(1) h' by simp
  qed
qed

lemma heap_set_from_grid_well_formed:
  assumes "list_all well_formed h" and "heap_set_from_grid h a tile v = (h', r)"
  shows "list_all well_formed h'"
proof -
  have "heap_set_from_grid h a tile v =
          heap_setitem h a (of_int (fst tile) * fst (tilesize (h ! a)) + fst (fst (rect (h ! a))),
                            of_int (snd tile) * snd (tilesize (h ! a)) + snd (fst (rect (h ! a)))) v"
    by (simp add: heap_set_from_grid_def heap_setitem_def set_from_grid_def)
  then have "heap_setitem h a (of_int (fst tile) * fst (tilesize (h ! a)) + fst (fst (rect (h ! a))),
                            of_int (snd tile) * snd (tilesize (h ! a)) + snd (fst (rect (h ! a)))) v
               = (h', r)"
    using assms(2) by simp
  with assms(1) show ?thesis
    by (rule heap_setitem_well_formed)
qed

lemma copy_items_well_formed:
  "list_all well_formed h \<Longrightarrow> copy_items h y items = (h', r) \<Longrightarrow> list_all well_formed h'"
proof (induction items arbitrary: h)
  case Nil
  then show ?case by simp
next
  case (Cons kv items)
  obtain key v where kv: "kv = (key, v)"
    by (cases kv)
  obtain h1 r1 where s: "heap_setitem h y key v = (h1, r1)"
    by (cases "heap_setitem h y key v")
  have wf1: "list_all well_formed h1"
    using Cons.prems(1) s by (rule heap_setitem_well_formed)
  show ?case
  proof (cases r1)
    case None
    then have "copy_items h1 y items = (h', r)"
      using Cons.prems(2) kv s by simp
    then show ?thesis
      using Cons.IH wf1 by simp
  next
    case (Some e)
    then have "h' = h1"
      using Cons.prems(2) kv s by simp
    then show ?thesis
      using wf1 by simp
  qed
qed

lemma copy_well_formed:
  assumes "list_all well_formed h" and "copy h x = (h', r)"
  shows "list_all well_formed h'"
proof -
  let ?h1 = "h @ [(h ! x)\<lparr>storage := []\<rparr>]"
  obtain h2 r2 where c: "copy_items ?h1 (length h) (storage (?h1 ! x)) = (h2, r2)"
    by (cases "copy_items ?h1 (length h) (storage (?h1 ! x))")
  have "h' = h2"
    using assms(2) c by (auto simp: copy_def Let_def split: option.splits)
  moreover have "list_all well_formed ?h1"
    using assms(1) by simp
  ultimately show ?thesis
    using c copy_items_well_formed by blast
qed

lemma operation_well_formed:
  assumes "list_all well_formed h" and "operation f h other c g = (h', r)"
  shows "list_all well_formed h'"
  using assms heap_setitem_well_formed
  by (auto simp: operation_def split: sum.splits)

lemma op_loop_well_formed:
  "list_all well_formed h \<Longrightarrow> op_loop f h other g cs = (h', r) \<Longrightarrow> list_all well_formed h'"
proof (induction cs arbitrary: h)
  case Nil
  then show ?case by simp
next
  case (Cons c cs)
  obtain h1 r1 where s: "operation f h other c g = (h1, r1)"
    by (cases "operation f h other c g")
  have wf1: "list_all well_formed h1"
    using Cons.prems(1) s by (rule operation_well_formed)
  show ?case
  proof (cases r1)
    case None
    then have "op_loop f h1 other g cs = (h', r)"
      using Cons.prems(2) s by simp
    then show ?thesis
      using Cons.IH wf1 by simp
  next
    case (Some e)
    then have "h' = h1"
      using Cons.prems(2) s by simp
    then show ?thesis
      using wf1 by simp
  qed
qed

lemma grid_operation_well_formed:
  assumes "list_all well_formed h" and "grid_operation f h self other = (h', r)"
  shows "list_all well_formed h'"
proof (cases "rect (h ! self) \<noteq> rect (h ! other)")
  case True
  then show ?thesis
    using assms by (auto simp: grid_operation_def)
next
  case False
  obtain h1 r1 where c: "copy h self = (h1, r1)"
    by (cases "copy h self")
  have wf1: "list_all well_formed h1"
    using assms(1) c by (rule copy_well_formed)
  show ?thesis
  proof (cases r1)
    case (Inl e)
    then have "h' = h1"
      using assms(2) False c by (auto simp: grid_operation_def)
    then show ?thesis
      using wf1 by simp
  next
    case (Inr g)
    obtain h2 r2 where l: "op_loop f h1 other g (map fst (storage (h1 ! other))) = (h2, r2)"
      by (cases "op_loop f h1 other g (map fst (storage (h1 ! other)))")
    have "h' = h2"
      using assms(2) False c Inr l by (auto simp: grid_operation_def split: option.splits)
    then show ?thesis
      using wf1 l op_loop_well_formed by blast
  qed
qed

lemma exec_well_formed:
  assumes "list_all well_formed h"
  shows "list_all well_formed (exec h cmd)"
proof (cases cmd)
  case (New rct gsz dflt)
  then show ?thesis
    using assms by (auto simp: heap_init_def split: sum.splits dest: init_well_formed)
next
  case (SetItem a c v)
  then show ?thesis
    using assms heap_setitem_well_formed [of h a c v] by (cases "heap_setitem h a c v") auto
next
  case (GetItem a c)
  then show ?thesis
    using assms by (simp add: heap_getitem_def)
next
  case (SetFromGrid a t v)
  then show ?thesis
    using assms heap_set_from_grid_well_formed [of h a t v]
    by (cases "heap_set_from_grid h a t v") auto
next
  case (Operator bop a b)
  then show ?thesis
    using assms grid_operation_well_formed [of h "scalar bop" a b]
    by (cases "grid_operation (scalar bop) h a b") (auto simp: binary_operator_def)
qed

lemma foldl_exec_well_formed:
  "list_all well_formed h \<Longrightarrow> list_all well_formed (foldl exec h cmds)"
  by (induction cmds arbitrary: h) (simp_all add: exec_well_formed)

lemma run_well_formed: "list_all well_formed (run cmds)"
  by (simp add: run_def foldl_exec_well_formed)

text \<open>
  C6. After any sequence of constructions, assignments by coordinate, assignments by
  grid index, reads and binary operators, no object of the store holds a value equal to
  its default. Assigning the default changes nothing: no entry is created and none is
  removed.
\<close>

theorem sparse_invariant:
  "list_all sparse (run cmds)
   \<and> setitem g c (default_val g) = Inr g
   \<and> heap_setitem h a c (default_val (h ! a)) = (h, None)"
proof -
  have "list_all sparse (run cmds)"
    using run_well_formed [of cmds] by (auto simp: list_all_iff well_formed_sparse)
  then show ?thesis
    by (simp add: heap_setitem_def setitem_default)
qed

theorem sparse_invariant_witness:
  "list_all sparse
     (run [New ((0, 0), (10, 10)) (2, 2) 0, New ((0, 0), (10, 10)) (2, 2) 0,
           SetItem 0 (3, 3) 7, SetItem 0 (3, 3) 0, SetFromGrid 1 (1, 1) 7, Operator Sub 0 1])
   \<and> setitem \<lparr>rect = ((0, 0), (10, 10)), default_val = 0, gridsize = (2, 2), tilesize = (5, 5),
               storage = [((0, 0), 7)]\<rparr> (3, 3) 0 =
       Inr \<lparr>rect = ((0, 0), (10, 10)), default_val = 0, gridsize = (2, 2), tilesize = (5, 5),
            storage = [((0, 0), 7)]\<rparr>"
  using sparse_invariant
    [of "[New ((0, 0), (10, 10)) (2, 2) 0, New ((0, 0), (10, 10)) (2, 2) 0,
          SetItem 0 (3, 3) 7, SetItem 0 (3, 3) 0, SetFromGrid 1 (1, 1) 7, Operator Sub 0 1]"
        "\<lparr>rect = ((0, 0), (10, 10)), default_val = 0, gridsize = (2, 2), tilesize = (5, 5),
          storage = [((0, 0), 7)]\<rparr>" "(3, 3)"]
  by simp

section \<open>The result of a binary operator\<close>

lemma update_fresh: "k \<notin> fst ` set al \<Longrightarrow> AList.update k v al = al @ [(k, v)]"
  by (induction al) auto

lemma copy_items_append:
  assumes "y < length h" and "distinct (map fst items)"
    and "fst ` set items \<inter> fst ` set (storage (h ! y)) = {}"
    and "list_all (\<lambda>(key, v). v \<noteq> default_val (h ! y) \<and> get_tile_of_coord (h ! y) key = Inr key) items"
  shows "copy_items h y items = (h[y := (h ! y)\<lparr>storage := storage (h ! y) @ items\<rparr>], None)"
  using assms
proof (induction items arbitrary: h)
  case Nil
  then show ?case by simp
next
  case (Cons kv items)
  obtain key v where kv: "kv = (key, v)"
    by (cases kv)
  let ?G = "h ! y"
  let ?G1 = "?G\<lparr>storage := storage ?G @ [(key, v)]\<rparr>"
  let ?h1 = "h[y := ?G1]"
  have fresh: "key \<notin> fst ` set (storage ?G)"
    using Cons.prems(3) kv by auto
  have v: "v \<noteq> default_val ?G" and tile: "get_tile_of_coord ?G key = Inr key"
    using Cons.prems(4) kv by simp_all
  have step: "heap_setitem h y key v = (?h1, None)"
    using v tile fresh by (simp add: heap_setitem_def setitem_def update_fresh)
  have y1: "?h1 ! y = ?G1"
    using Cons.prems(1) by simp
  have "copy_items ?h1 y items = (?h1[y := (?h1 ! y)\<lparr>storage := storage (?h1 ! y) @ items\<rparr>], None)"
  proof (rule Cons.IH)
    show "y < length ?h1"
      using Cons.prems(1) by simp
    show "distinct (map fst items)"
      using Cons.prems(2) by simp
    show "fst ` set items \<inter> fst ` set (storage (?h1 ! y)) = {}"
      using Cons.prems(2,3) kv unfolding y1 by auto
    show "list_all (\<lambda>(key, v). v \<noteq> default_val (?h1 ! y) \<and> get_tile_of_coord (?h1 ! y) key = Inr key) items"
      using Cons.prems(4) unfolding y1 by simp
  qed
  then have "copy_items ?h1 y items = (h[y := ?G\<lparr>storage := storage ?G @ (key, v) # items\<rparr>], None)"
    unfolding y1 by simp
  then show ?case
    using step kv by simp
qed

lemma copy_identity:
  assumes "x < length h" and "well_formed (h ! x)"
  shows "copy h x = (h @ [h ! x], Inr (length h))"
proof -
  let ?h1 = "h @ [(h ! x)\<lparr>storage := []\<rparr>]"
  have x1: "?h1 ! x = h ! x" and y1: "?h1 ! length h = (h ! x)\<lparr>storage := []\<rparr>"
    using assms(1) by (simp_all add: nth_append)
  have "copy_items ?h1 (length h) (storage (h ! x)) =
          (?h1[length h := (?h1 ! length h)\<lparr>storage := storage (?h1 ! length h) @ storage (h ! x)\<rparr>], None)"
  proof (rule copy_items_append)
    show "length h < length ?h1"
      by simp
    show "distinct (map fst (storage (h ! x)))"
      using assms(2) by (simp add: well_formed_def)
    show "fst ` set (storage (h ! x)) \<inter> fst ` set (storage (?h1 ! length h)) = {}"
      unfolding y1 by simp
    show "list_all (\<lambda>(key, v). v \<noteq> default_val (?h1 ! length h)
            \<and> get_tile_of_coord (?h1 ! length h) key = Inr key) (storage (h ! x))"
      using assms(2) unfolding y1 by (simp add: well_formed_def)
  qed
  then have "copy_items ?h1 (length h) (storage (?h1 ! x)) = (h @ [h ! x], None)"
    unfolding y1 x1 by simp
  then show ?thesis
    by (simp add: copy_def Let_def)
qed




section \<open>When a binary operator returns\<close>

lemma op_loop_returns:
  assumes "g < length h" and "g \<noteq> other"
    and "rect (h ! g) = rect (h ! other)" and "tilesize (h ! g) = tilesize (h ! other)"
    and "\<forall>c\<in>set cs. get_tile_of_coord (h ! other) c = Inr c"
    and "\<And>a b. \<exists>r. f a b = Inr r"
  shows "\<exists>h'. op_loop f h other g cs = (h', None)"
  using assms(1-5)
proof (induction cs arbitrary: h)
  case Nil
  then show ?case by simp
next
  case (Cons c cs)
  let ?G = "h ! g" and ?O = "h ! other"
  have tO: "get_tile_of_coord ?O c = Inr c"
    using Cons.prems(5) by simp
  have tG: "get_tile_of_coord ?G c = Inr c"
    using tO get_tile_of_coord_cong [OF Cons.prems(4) Cons.prems(3), of c] by simp
  obtain r where r: "f (dict_getitem ?G c) (dict_getitem ?O c) = Inr r"
    using assms(6) by blast
  define al1 where "al1 = (if r \<noteq> default_val ?G then AList.update c r (storage ?G) else storage ?G)"
  let ?h1 = "h[g := ?G\<lparr>storage := al1\<rparr>]"
  have o: "operation f h other c g = (?h1, None)"
    using tG tO r by (simp add: operation_def getitem_def heap_setitem_def setitem_def al1_def)
  have g1: "?h1 ! g = ?G\<lparr>storage := al1\<rparr>" and o1: "?h1 ! other = ?O"
    using Cons.prems(1,2) by simp_all
  have "\<exists>h'. op_loop f ?h1 other g cs = (h', None)"
  proof (rule Cons.IH)
    show "g < length ?h1"
      using Cons.prems(1) by simp
    show "g \<noteq> other"
      by (rule Cons.prems(2))
    show "rect (?h1 ! g) = rect (?h1 ! other)" "tilesize (?h1 ! g) = tilesize (?h1 ! other)"
      using Cons.prems(3,4) unfolding g1 o1 by simp_all
    show "\<forall>c\<in>set cs. get_tile_of_coord (?h1 ! other) c = Inr c"
      using Cons.prems(5) unfolding o1 by simp
  qed
  then show ?case
    using o by simp
qed

lemma grid_operation_returns:
  assumes "self < length h" and "other < length h"
    and "well_formed (h ! self)" and "well_formed (h ! other)"
    and "rect (h ! self) = rect (h ! other)" and "tilesize (h ! self) = tilesize (h ! other)"
    and "\<And>a b. \<exists>r. f a b = Inr r"
  shows "\<exists>h'. grid_operation f h self other = (h', Inr (length h))"
proof -
  let ?S = "h ! self" and ?O = "h ! other"
  let ?h1 = "h @ [?S]"
  let ?cs = "map fst (storage ?O)"
  have cp: "copy h self = (?h1, Inr (length h))"
    using assms(1,3) by (rule copy_identity)
  have o1: "?h1 ! other = ?O" and g1: "?h1 ! length h = ?S"
    using assms(2) by (simp_all add: nth_append)
  have "\<exists>h'. op_loop f ?h1 other (length h) ?cs = (h', None)"
  proof (rule op_loop_returns)
    show "length h < length ?h1"
      by simp
    show "length h \<noteq> other"
      using assms(2) by simp
    show "rect (?h1 ! length h) = rect (?h1 ! other)"
      and "tilesize (?h1 ! length h) = tilesize (?h1 ! other)"
      using assms(5,6) unfolding o1 g1 by simp_all
    show "\<forall>c\<in>set ?cs. get_tile_of_coord (?h1 ! other) c = Inr c"
      using assms(4) unfolding o1 by (auto simp: well_formed_def list_all_iff)
    show "\<exists>r. f a b = Inr r" for a b
      by (rule assms(7))
  qed
  then obtain h' where "op_loop f ?h1 other (length h) ?cs = (h', None)"
    by blast
  then show ?thesis
    using assms(5) cp by (simp add: grid_operation_def o1)
qed

lemma binary_operator_returns:
  assumes "self < length h" and "other < length h"
    and "well_formed (h ! self)" and "well_formed (h ! other)"
    and "rect (h ! self) = rect (h ! other)" and "tilesize (h ! self) = tilesize (h ! other)"
    and "bop = Add \<or> bop = Sub \<or> bop = Mul"
  shows "\<exists>h'. binary_operator bop h self other = (h', Inr (length h))"
  unfolding binary_operator_def
proof (rule grid_operation_returns [OF assms(1-6)])
  show "\<exists>r. scalar bop a b = Inr r" for a b
    using assms(7) by auto
qed

section \<open>Values of the result of a binary operator\<close>

lemma init_same_tiling:
  assumes "init r1 gsz d1 = Inr g1" and "init r2 gsz d2 = Inr g2" and "rect g1 = rect g2"
  shows "tilesize g1 = tilesize g2"
proof -
  have nz: "fst gsz \<noteq> 0" "snd gsz \<noteq> 0"
    using assms(1) by (auto simp: init_def py_truediv_def Let_def split: if_splits)
  have abs: "\<bar>a - b\<bar> = max a b - min a b" for a b :: rat
    by (simp add: max_def min_def)
  show ?thesis
    using assms unfolding init_ok [OF nz] by (auto simp: abs)
qed








end
